theory Spec2Isabelle
  imports Main "HOL-Library.AList"
begin

section \<open>JavaScript values\<close>

text \<open>
  The dashboard receives untyped payloads (\<^verbatim>\<open>any\<close>), so the model carries JavaScript
  values as a datatype. Numbers are only stored and compared, never computed with: their
  representation is the type parameter \<open>'n\<close>. A string is a list of code units; the
  8-bit \<open>char\<close> covers the code units below 256, which is where every literal and every
  fixed part of the regular expression of the source lies. An object is an association
  list read by its first binding for a key.
\<close>

datatype 'n jsval =
    JUndefined
  | JNull
  | JBool bool
  | JNum 'n
  | JStr string
  | JArr "'n jsval list"
  | JObj "(string \<times> 'n jsval) list"

type_synonym 'n obj = "(string \<times> 'n jsval) list"

text \<open>A thrown value: the name of its constructor and its \<^verbatim>\<open>message\<close>.\<close>

datatype js_error = JsError (err_name: string) (err_message: string)

text \<open>\<^verbatim>\<open>v == null\<close>: the two values on which \<^verbatim>\<open>??\<close> falls through and a property read throws.\<close>

definition nullish :: "'n jsval \<Rightarrow> bool" where
  "nullish v = (v = JNull \<or> v = JUndefined)"

text \<open>
  \<^verbatim>\<open>o[k]\<close> on an object literal or a parsed object: the bound value, \<^verbatim>\<open>undefined\<close> for a
  missing key.
\<close>

definition obj_get :: "'n obj \<Rightarrow> string \<Rightarrow> 'n jsval" where
  "obj_get kvs k = (case map_of kvs k of None \<Rightarrow> JUndefined | Some v \<Rightarrow> v)"

text \<open>
  \<^verbatim>\<open>d.k\<close> for a \<open>d\<close> that is neither \<^verbatim>\<open>null\<close> nor \<^verbatim>\<open>undefined\<close>, and for the keys the
  source reads (\<^verbatim>\<open>us US temp T pressure P state ST pos dir DIR type data\<close>): none of them is
  a property of a string, a number, a boolean or an array, so the read gives
  \<^verbatim>\<open>undefined\<close> there.
\<close>

fun get_prop :: "'n jsval \<Rightarrow> string \<Rightarrow> 'n jsval" where
  "get_prop (JObj kvs) k = obj_get kvs k"
| "get_prop _ k = JUndefined"

text \<open>\<^verbatim>\<open>a ?? b\<close>\<close>

definition coalesce :: "'n jsval \<Rightarrow> 'n jsval \<Rightarrow> 'n jsval" where
  "coalesce a b = (if nullish a then b else a)"

text \<open>\<^verbatim>\<open>Array.isArray\<close>\<close>

fun isArray :: "'n jsval \<Rightarrow> bool" where
  "isArray (JArr xs) = True"
| "isArray _ = False"

text \<open>
  \<^verbatim>\<open>{ ...a, ...b }\<close>: every own property of \<open>b\<close> is written over a copy of \<open>a\<close>, a key
  that \<open>a\<close> has keeping its place and a new key going to the end. A property whose
  value is \<^verbatim>\<open>undefined\<close> is an own property like any other and is written too.
\<close>

definition spread :: "'n obj \<Rightarrow> 'n obj \<Rightarrow> 'n obj" where
  "spread a b = foldl (\<lambda>acc (k, v). AList.update k v acc) a b"

text \<open>\<^verbatim>\<open>s.startsWith(p)\<close>\<close>

definition startsWith :: "string \<Rightarrow> string \<Rightarrow> bool" where
  "startsWith s p = (take (length p) s = p)"

section \<open>The dashboard (App.tsx)\<close>

subsection \<open>Telemetry\<close>

text \<open>
  \<^verbatim>\<open>normalizeTelemetry\<close>. The first read \<^verbatim>\<open>d.us\<close> throws a TypeError when \<open>d\<close> is
  \<^verbatim>\<open>null\<close> or \<^verbatim>\<open>undefined\<close>; otherwise the object literal with its six keys is returned.
\<close>

definition normalizeTelemetry :: "'n jsval \<Rightarrow> js_error + 'n obj" where
  "normalizeTelemetry d =
     (if nullish d then Inl (JsError ''TypeError'' ''Cannot read properties of null or undefined'')
      else Inr
        [(''us'', coalesce (get_prop d ''us'') (get_prop d ''US'')),
         (''temp'', coalesce (get_prop d ''temp'') (get_prop d ''T'')),
         (''pressure'', coalesce (get_prop d ''pressure'') (get_prop d ''P'')),
         (''state'', coalesce (get_prop d ''state'') (get_prop d ''ST'')),
         (''pos'', if isArray (get_prop d ''pos'') then get_prop d ''pos'' else JNull),
         (''dir'', coalesce (get_prop d ''dir'') (get_prop d ''DIR''))])"

text \<open>The state updater of \<^verbatim>\<open>api.onTelemetry\<close>: \<^verbatim>\<open>prev => ({ ...prev, ...normalizeTelemetry(data) })\<close>.\<close>

definition mergeTelemetry :: "'n obj \<Rightarrow> 'n jsval \<Rightarrow> js_error + 'n obj" where
  "mergeTelemetry prev data =
     (case normalizeTelemetry data of
        Inl e \<Rightarrow> Inl e
      | Inr upd \<Rightarrow> Inr (spread prev upd))"

text \<open>The initial snapshot of \<^verbatim>\<open>useState<TelemetryData>\<close>.\<close>

definition initialTelemetry :: "'n obj" where
  "initialTelemetry =
     [(''us'', JNull), (''temp'', JNull), (''pressure'', JNull),
      (''state'', JStr ''---''), (''pos'', JNull), (''dir'', JStr ''---'')]"

text \<open>
  The long-form key of each field that has a short form, with that short form.
  \<^verbatim>\<open>pos\<close> has one name only.
\<close>

definition key_pairs :: "(string \<times> string) list" where
  "key_pairs =
     [(''us'', ''US''), (''temp'', ''T''), (''pressure'', ''P''),
      (''state'', ''ST''), (''dir'', ''DIR'')]"

text \<open>The six field names of a snapshot.\<close>

definition field_names :: "string list" where
  "field_names = [''us'', ''temp'', ''pressure'', ''state'', ''pos'', ''dir'']"

text \<open>A two-element array, the shape \<^verbatim>\<open>[number, number]\<close> of the declared type of \<^verbatim>\<open>pos\<close>.\<close>

fun is_pair :: "'n jsval \<Rightarrow> bool" where
  "is_pair (JArr [a, b]) = True"
| "is_pair _ = False"

subsection \<open>The log\<close>

datatype log_type = tx | rx | sys

record LogEntry =
  entry_id :: string
  timestamp :: string
  message :: string
  entry_type :: log_type

text \<open>
  \<^verbatim>\<open>addLog\<close>. The random id and the clock reading come from the environment and are
  arguments here. \<^verbatim>\<open>[entry, ...prev].slice(0, 100)\<close> keeps the first hundred.
\<close>

definition addLog :: "string \<Rightarrow> string \<Rightarrow> log_type \<Rightarrow> string \<Rightarrow> LogEntry list \<Rightarrow> LogEntry list" where
  "addLog rid now ty msg prev =
     take 100 (\<lparr>entry_id = rid, timestamp = now, message = msg, entry_type = ty\<rparr> # prev)"

text \<open>A sequence of insertions, each with its id, clock reading, category and message.\<close>

fun addLogs :: "(string \<times> string \<times> log_type \<times> string) list \<Rightarrow> LogEntry list \<Rightarrow> LogEntry list" where
  "addLogs [] prev = prev"
| "addLogs ((rid, now, ty, msg) # rest) prev = addLogs rest (addLog rid now ty msg prev)"

text \<open>
  The class \<^verbatim>\<open>\s\<close> of the regular expression, on the code units below 256: tab, line
  feed, vertical tab, form feed, carriage return, space and no-break space.
\<close>

definition is_space :: "char \<Rightarrow> bool" where
  "is_space c = (c \<in> set [CHR 0x09, CHR 0x0A, CHR 0x0B, CHR 0x0C, CHR 0x0D, CHR 0x20, CHR 0xA0])"

text \<open>
  \<^verbatim>\<open>msg.replace(/^(TX|RX|SYS):?\s*/, '')\<close>: at the start of the string one of the three
  tags, then a colon if there is one, then all the white space that follows, are removed.
  A string that starts with none of the tags is returned as it is.
\<close>

definition strip_tag :: "string \<Rightarrow> string" where
  "strip_tag msg =
     (if startsWith msg ''TX'' \<or> startsWith msg ''RX'' \<or> startsWith msg ''SYS'' then
        (let r = drop (if startsWith msg ''SYS'' then 3 else 2) msg;
             r' = (case r of [] \<Rightarrow> [] | c # t \<Rightarrow> if c = CHR '':'' then t else c # t)
         in dropWhile is_space r')
      else msg)"

text \<open>The category the handler of \<^verbatim>\<open>api.onLog\<close> gives a line.\<close>

definition classify :: "string \<Rightarrow> log_type" where
  "classify msg = (if startsWith msg ''TX'' then tx else if startsWith msg ''RX'' then rx else sys)"

text \<open>The handler \<^verbatim>\<open>api.onLog\<close> of the dashboard.\<close>

definition app_onLog :: "string \<Rightarrow> string \<Rightarrow> string \<Rightarrow> LogEntry list \<Rightarrow> LogEntry list" where
  "app_onLog rid now msg prev = addLog rid now (classify msg) (strip_tag msg) prev"

section \<open>The session client (services/api.ts)\<close>

text \<open>
  What the client takes from its platform: the JSON parser (\<open>None\<close> when it throws a
  SyntaxError), \<^verbatim>\<open>JSON.stringify\<close> (\<open>None\<close> for its result \<^verbatim>\<open>undefined\<close>), the string
  conversion of a template literal (which throws on some objects), and the address
  \<^verbatim>\<open>HTTP_URL\<close>, built from constants of a module that is configuration.
\<close>

record 'n js_env =
  JSON_parse :: "string \<Rightarrow> 'n jsval option"
  JSON_stringify :: "'n jsval \<Rightarrow> string option"
  toString :: "'n jsval \<Rightarrow> js_error + string"
  HTTP_URL :: string

text \<open>A value of type \<^verbatim>\<open>string | undefined\<close> inside a template literal.\<close>

fun template :: "string option \<Rightarrow> string" where
  "template (Some s) = s"
| "template None = ''undefined''"

text \<open>
  The fields of \<^verbatim>\<open>RobotApi\<close>. \<open>socket\<close> is \<open>None\<close> for \<^verbatim>\<open>null\<close> and \<open>Some c\<close> for a socket
  whose \<^verbatim>\<open>connected\<close> flag reads \<open>c\<close>. Each callback slot records whether a handler is
  assigned; what a handler is called with is recorded as an action. A handler is taken
  to return normally, as the three handlers of the dashboard do.
\<close>

record RobotApi =
  socket :: "bool option"
  onTelemetry :: bool
  onLog :: bool
  onAck :: bool
  onConnectChange :: bool

record request =
  req_url :: string
  req_method :: string
  req_headers :: "(string \<times> string) list"
  req_body :: "string option"

text \<open>
  What the client does to the outside, in order: a call of one of the four callbacks
  with its argument, an emission on the socket, a request of \<^verbatim>\<open>fetch\<close>.
\<close>

datatype 'n action =
    Telemetry "'n jsval"
  | Log string
  | Ack "string option"
  | ConnectChange bool
  | Emit string "'n jsval"
  | Fetch request

text \<open>\<^verbatim>\<open>connect\<close> stores a new socket, not yet connected.\<close>

definition connect :: "RobotApi \<Rightarrow> RobotApi" where
  "connect api = api\<lparr>socket := Some False\<rparr>"

text \<open>The private \<^verbatim>\<open>log(type, msg)\<close>: \<^verbatim>\<open>if (this.onLog) this.onLog(msg)\<close>.\<close>

definition log :: "RobotApi \<Rightarrow> string \<Rightarrow> string \<Rightarrow> 'n action list" where
  "log api ty msg = (if onLog api then [Log msg] else [])"

text \<open>The handlers of the socket events \<^verbatim>\<open>connect\<close>, \<^verbatim>\<open>disconnect\<close> and \<^verbatim>\<open>telemetry\<close>.\<close>

definition on_connect :: "RobotApi \<Rightarrow> 'n action list" where
  "on_connect api =
     (if onConnectChange api then [ConnectChange True] else []) @ log api ''SYS'' ''WebSocket Connected''"

definition on_disconnect :: "RobotApi \<Rightarrow> 'n action list" where
  "on_disconnect api =
     (if onConnectChange api then [ConnectChange False] else []) @ log api ''SYS'' ''WebSocket Disconnected''"

definition on_telemetry :: "RobotApi \<Rightarrow> 'n jsval \<Rightarrow> 'n action list" where
  "on_telemetry api t = (if onTelemetry api then [Telemetry t] else [])"

text \<open>
  The first part of the handler of \<^verbatim>\<open>message\<close>: a string payload is parsed, and when the
  parser throws the raw text is logged and the handler returns (\<open>Inl\<close> holds what it did
  until then).
\<close>

definition parse_payload :: "'n js_env \<Rightarrow> RobotApi \<Rightarrow> 'n jsval \<Rightarrow> 'n action list + 'n jsval" where
  "parse_payload env api payload =
     (case payload of
        JStr s \<Rightarrow> (case JSON_parse env s of None \<Rightarrow> Inl (log api ''RX'' s) | Some v \<Rightarrow> Inr v)
      | _ \<Rightarrow> Inr payload)"

text \<open>
  The handler of \<^verbatim>\<open>message\<close>. Reading \<^verbatim>\<open>obj.type\<close> throws a TypeError when \<open>obj\<close> is
  \<^verbatim>\<open>null\<close> or \<^verbatim>\<open>undefined\<close>.
\<close>

definition on_message :: "'n js_env \<Rightarrow> RobotApi \<Rightarrow> 'n jsval \<Rightarrow> js_error + 'n action list" where
  "on_message env api payload =
     (case parse_payload env api payload of
        Inl acts \<Rightarrow> Inr acts
      | Inr obj \<Rightarrow>
          if nullish obj then Inl (JsError ''TypeError'' ''Cannot read properties of null or undefined'')
          else if get_prop obj ''type'' = JStr ''telemetry'' then
            Inr (on_telemetry api (get_prop obj ''data''))
          else if get_prop obj ''type'' = JStr ''ack'' then
            Inr ((if onAck api then [Ack (JSON_stringify env (get_prop obj ''data''))] else [])
                 @ log api ''RX'' (''ACK: '' @ template (JSON_stringify env (get_prop obj ''data''))))
          else if get_prop obj ''type'' = JStr ''log'' then
            (case toString env (get_prop obj ''data'') of
               Inl e \<Rightarrow> Inl e
             | Inr s \<Rightarrow> Inr (log api ''RX'' (''LOG: '' @ s)))
          else Inr (log api ''RX'' (''MSG: '' @ template (JSON_stringify env obj))))"

text \<open>
  How the one request of \<^verbatim>\<open>fetch\<close> ends: a response whose body reads as the given text,
  a rejection of \<^verbatim>\<open>fetch\<close> itself, or a rejection while the body is read.
\<close>

datatype fetch_outcome = Responds string | FetchRejects js_error | TextRejects js_error

text \<open>
  The body of the \<^verbatim>\<open>try\<close> block of \<^verbatim>\<open>sendCmd\<close>: what it did, and the exception that ended
  it if one did.
\<close>

definition fallback_try :: "'n js_env \<Rightarrow> RobotApi \<Rightarrow> string \<Rightarrow> fetch_outcome \<Rightarrow> 'n action list \<times> js_error option" where
  "fallback_try env api cmd outcome =
     (let sent = log api ''TX'' (''HTTP: '' @ cmd @ '' (Fallback)'') @
            [Fetch \<lparr>req_url = HTTP_URL env, req_method = ''POST'',
                    req_headers = [(''Content-Type'', ''application/json'')],
                    req_body = JSON_stringify env (JObj [(''c'', JStr cmd)])\<rparr>]
      in case outcome of
           Responds text \<Rightarrow> (sent @ log api ''RX'' (''HTTP Resp: '' @ text), None)
         | FetchRejects e \<Rightarrow> (sent, Some e)
         | TextRejects e \<Rightarrow> (sent, Some e))"

text \<open>
  \<^verbatim>\<open>sendCmd\<close>. \<open>Inl\<close> would be a rejection of the promise it returns. The socket path
  returns before the \<^verbatim>\<open>try\<close>; the \<^verbatim>\<open>catch\<close> logs the message of what the block threw.
\<close>

definition sendCmd :: "'n js_env \<Rightarrow> RobotApi \<Rightarrow> string \<Rightarrow> fetch_outcome \<Rightarrow> js_error + 'n action list" where
  "sendCmd env api cmd outcome =
     (if socket api = Some True then
        Inr (Emit ''cmd'' (JObj [(''cmd'', JStr cmd)]) # log api ''TX'' (''WS: '' @ cmd))
      else
        (case fallback_try env api cmd outcome of
           (acts, None) \<Rightarrow> Inr acts
         | (acts, Some e) \<Rightarrow> Inr (acts @ log api ''SYS'' (''HTTP Send Failed: '' @ err_message e))))"

section \<open>The dashboard wired to the client\<close>

record 'n app_state =
  connected :: bool
  telemetry :: "'n obj"
  logs :: "LogEntry list"

definition app_init :: "'n app_state" where
  "app_init = \<lparr>connected = False, telemetry = initialTelemetry, logs = []\<rparr>"

text \<open>
  The effect of \<^verbatim>\<open>useEffect\<close>: three of the four slots get a handler, \<^verbatim>\<open>onAck\<close> stays
  \<^verbatim>\<open>null\<close>.
\<close>

definition app_api :: "bool option \<Rightarrow> RobotApi" where
  "app_api sock = \<lparr>socket = sock, onTelemetry = True, onLog = True, onAck = False, onConnectChange = True\<rparr>"

text \<open>
  What one action of the client does to the state of the dashboard, given the id and the
  clock reading a log entry would get. An exception of the telemetry updater is \<open>Inl\<close>.
\<close>

fun app_callback :: "string \<times> string \<Rightarrow> 'n action \<Rightarrow> 'n app_state \<Rightarrow> js_error + 'n app_state" where
  "app_callback st (ConnectChange b) s = Inr (s\<lparr>connected := b\<rparr>)"
| "app_callback st (Log msg) s = Inr (s\<lparr>logs := app_onLog (fst st) (snd st) msg (logs s)\<rparr>)"
| "app_callback st (Telemetry data) s =
     (case mergeTelemetry (telemetry s) data of
        Inl e \<Rightarrow> Inl e
      | Inr t \<Rightarrow> Inr (s\<lparr>telemetry := t\<rparr>))"
| "app_callback st (Ack a) s = Inr s"
| "app_callback st (Emit ev v) s = Inr s"
| "app_callback st (Fetch r) s = Inr s"

text \<open>
  The actions of the client applied in order; the \<open>n\<close>-th of them gets the id and clock
  reading \<open>stamp n\<close>.
\<close>

fun app_run :: "(nat \<Rightarrow> string \<times> string) \<Rightarrow> nat \<Rightarrow> 'n action list \<Rightarrow> 'n app_state \<Rightarrow> js_error + 'n app_state" where
  "app_run stamp n [] s = Inr s"
| "app_run stamp n (a # rest) s =
     (case app_callback (stamp n) a s of
        Inl e \<Rightarrow> Inl e
      | Inr s' \<Rightarrow> app_run stamp (Suc n) rest s')"

text \<open>The categories and messages of a log, newest first.\<close>

definition log_view :: "LogEntry list \<Rightarrow> (log_type \<times> string) list" where
  "log_view es = map (\<lambda>e. (entry_type e, message e)) es"

section \<open>Notions the properties are stated with\<close>

text \<open>
  The value of field \<open>k\<close> of what \<^verbatim>\<open>normalizeTelemetry\<close> returns for \<open>d\<close>; \<open>None\<close> when
  it throws.
\<close>

definition normalized_field :: "'n jsval \<Rightarrow> string \<Rightarrow> 'n jsval option" where
  "normalized_field d k = (case normalizeTelemetry d of Inl e \<Rightarrow> None | Inr n \<Rightarrow> Some (obj_get n k))"

text \<open>The dashboard's state after the actions of one run of the client.\<close>

definition app_apply :: "(nat \<Rightarrow> string \<times> string) \<Rightarrow> js_error + 'n action list \<Rightarrow> 'n app_state \<Rightarrow> js_error + 'n app_state" where
  "app_apply stamp r s = (case r of Inl e \<Rightarrow> Inl e | Inr acts \<Rightarrow> app_run stamp 0 acts s)"

text \<open>The log that is displayed then, as categories and messages; \<open>None\<close> after an exception.\<close>

definition shown :: "js_error + 'n app_state \<Rightarrow> (log_type \<times> string) list option" where
  "shown r = (case r of Inl e \<Rightarrow> None | Inr s \<Rightarrow> Some (log_view (logs s)))"

text \<open>\<open>m\<close> occurs in \<open>s\<close> (\<^verbatim>\<open>s.includes(m)\<close>).\<close>

fun str_includes :: "string \<Rightarrow> string \<Rightarrow> bool" where
  "str_includes [] m = (m = [])"
| "str_includes (c # s) m = (startsWith (c # s) m \<or> str_includes s m)"

section \<open>Properties\<close>

subsection \<open>Auxiliary facts\<close>

lemma startsWith_simps [simp]:
  "startsWith s [] = True"
  "startsWith [] (c # p) = False"
  "startsWith (a # s) (c # p) = (a = c \<and> startsWith s p)"
  by (auto simp: startsWith_def)

lemma map_of_spread:
  "map_of (spread a b) k = (case map_of (rev b) k of Some v \<Rightarrow> Some v | None \<Rightarrow> map_of a k)"
  unfolding spread_def
proof (induction b arbitrary: a)
  case Nil
  show ?case by simp
next
  case (Cons x b)
  obtain k' v' where x: "x = (k', v')" by (cases x)
  show ?case
    by (simp add: x Cons.IH update_conv' map_add_def split: option.splits)
qed

text \<open>
  Whatever the previous snapshot holds, after an update each of the six fields reads what
  \<^verbatim>\<open>normalizeTelemetry\<close> returned for it: the literal it returns always has all six keys.
\<close>

lemma merge_reads_normalized:
  assumes "normalizeTelemetry d = Inr n" and "k \<in> set field_names"
  shows "\<exists>t. mergeTelemetry prev d = Inr t \<and> obj_get t k = obj_get n k"
  using assms
  by (auto simp: mergeTelemetry_def normalizeTelemetry_def field_names_def obj_get_def
      map_of_spread split: if_splits)

lemma normalized_field_keys:
  "normalized_field (JObj kvs) ''us'' = Some (coalesce (obj_get kvs ''us'') (obj_get kvs ''US''))"
  "normalized_field (JObj kvs) ''temp'' = Some (coalesce (obj_get kvs ''temp'') (obj_get kvs ''T''))"
  "normalized_field (JObj kvs) ''pressure'' = Some (coalesce (obj_get kvs ''pressure'') (obj_get kvs ''P''))"
  "normalized_field (JObj kvs) ''state'' = Some (coalesce (obj_get kvs ''state'') (obj_get kvs ''ST''))"
  "normalized_field (JObj kvs) ''dir'' = Some (coalesce (obj_get kvs ''dir'') (obj_get kvs ''DIR''))"
  by (simp_all add: normalized_field_def normalizeTelemetry_def nullish_def obj_get_def)

lemma length_addLog: "length (addLog rid now ty msg prev) = min 100 (Suc (length prev))"
  by (simp add: addLog_def)

lemma length_addLogs: "length prev \<le> 100 \<Longrightarrow> length (addLogs ins prev) \<le> 100"
  by (induction ins prev rule: addLogs.induct) (simp_all add: length_addLog)

text \<open>
  \<^verbatim>\<open>sendCmd\<close> always resolves: neither path lets an exception reach the caller.
\<close>

lemma sendCmd_returns: "\<exists>acts. sendCmd env api cmd outcome = Inr acts"
  by (simp add: sendCmd_def split: prod.splits option.splits)

text \<open>What a failed fallback request leaves behind, for any command and any error.\<close>

lemma sendCmd_failure:
  assumes "socket api \<noteq> Some True" and "outcome = FetchRejects e \<or> outcome = TextRejects e"
  shows "sendCmd env api cmd outcome =
     Inr (log api ''TX'' (''HTTP: '' @ cmd @ '' (Fallback)'') @
          [Fetch \<lparr>req_url = HTTP_URL env, req_method = ''POST'',
                  req_headers = [(''Content-Type'', ''application/json'')],
                  req_body = JSON_stringify env (JObj [(''c'', JStr cmd)])\<rparr>] @
          log api ''SYS'' (''HTTP Send Failed: '' @ err_message e))"
  using assms by (auto simp: sendCmd_def fallback_try_def)

text \<open>
  A line that the handler of \<^verbatim>\<open>api.onLog\<close> puts in the category \<open>rx\<close> starts with \<^verbatim>\<open>RX\<close>, and
  then the tag is cut off its message: no line is both recorded as inbound and shown as
  it came.
\<close>

lemma classify_strip_not_both: "\<not> (classify raw = rx \<and> strip_tag raw = raw)"
proof
  assume a: "classify raw = rx \<and> strip_tag raw = raw"
  then have rx: "startsWith raw ''RX''"
    by (auto simp: classify_def split: if_splits)
  then obtain rest where raw: "raw = CHR ''R'' # CHR ''X'' # rest"
    by (cases raw; cases "tl raw") (auto)
  have "length (strip_tag raw) < length raw"
    using length_dropWhile_le [of is_space rest] length_dropWhile_le [of is_space "tl rest"]
    by (cases rest) (auto simp: raw strip_tag_def)
  with a show False by simp
qed

text \<open>A text that does not parse is logged as it is, and nothing else is done with it.\<close>

lemma on_message_unparsed:
  "JSON_parse env raw = None \<Longrightarrow> on_message env api (JStr raw) = Inr (log api ''RX'' raw)"
  by (simp add: on_message_def parse_payload_def)

text \<open>A string occurs in every string that ends with it.\<close>

lemma startsWith_self: "startsWith s s"
  by (simp add: startsWith_def)

lemma str_includes_self: "str_includes m m"
  by (cases m) (simp_all add: startsWith_self del: startsWith_simps)

lemma str_includes_append: "str_includes (p @ m) m"
  by (induction p) (simp_all add: str_includes_self)

text \<open>
  The dashboard's log, empty before, after a fallback request that failed: the line of
  the failure on top of the line of the attempt, both filed as system entries.
\<close>

lemma failure_shown:
  assumes "sock \<noteq> Some True" and "outcome = FetchRejects e \<or> outcome = TextRejects e"
  shows "shown (app_apply stamp (sendCmd env (app_api sock) cmd outcome) app_init)
     = Some [(sys, ''HTTP Send Failed: '' @ err_message e), (sys, ''HTTP: '' @ cmd @ '' (Fallback)'')]"
  using assms
  by (auto simp: sendCmd_def fallback_try_def log_def app_api_def app_apply_def shown_def
      log_view_def app_init_def app_onLog_def addLog_def classify_def strip_tag_def)

text \<open>A position that is not an array is normalized to \<^verbatim>\<open>null\<close>.\<close>

lemma position_not_array_null:
  "\<not> nullish d \<Longrightarrow> \<not> isArray (get_prop d ''pos'') \<Longrightarrow> normalized_field d ''pos'' = Some JNull"
  by (simp add: normalized_field_def normalizeTelemetry_def obj_get_def)

subsection \<open>Telemetry\<close>

text \<open>
  C1 says that a field missing from an update keeps the value of the previous snapshot.
  The code does not do that. With a previous snapshot whose distance is 12, whose state
  is IDLE, whose position is [1, 2] and whose direction is N, the update \<^verbatim>\<open>{T: 25}\<close>
  leaves the distance, the pressure, the state and the direction \<^verbatim>\<open>undefined\<close> and the
  position \<^verbatim>\<open>null\<close>: the normalized update carries all six keys, so the spread over the
  previous snapshot replaces every field.
\<close>

theorem C1_absent_fields_overwritten:
  "mergeTelemetry
     [(''us'', JNum (12::int)), (''temp'', JNull), (''pressure'', JNull),
      (''state'', JStr ''IDLE''), (''pos'', JArr [JNum 1, JNum 2]), (''dir'', JStr ''N'')]
     (JObj [(''T'', JNum 25)])
   = Inr [(''us'', JUndefined), (''temp'', JNum 25), (''pressure'', JUndefined),
          (''state'', JUndefined), (''pos'', JNull), (''dir'', JUndefined)]"
  by (simp add: mergeTelemetry_def normalizeTelemetry_def spread_def nullish_def coalesce_def
      obj_get_def)

text \<open>
  C2: a payload whose \<^verbatim>\<open>type\<close> is \<^verbatim>\<open>telemetry\<close> makes the handler of \<^verbatim>\<open>message\<close> do exactly
  what the handler of the direct \<^verbatim>\<open>telemetry\<close> event does with the payload's \<^verbatim>\<open>data\<close>,
  whether the payload arrives as an object or as a text that parses to it; and what both
  do, when a telemetry callback is assigned, is one call of it with that \<^verbatim>\<open>data\<close>.
\<close>

theorem C2_telemetry_paths_agree:
  assumes "get_prop P ''type'' = JStr ''telemetry''"
  shows "on_message env api P = Inr (on_telemetry api (get_prop P ''data'')) \<and>
         (JSON_parse env s = Some P \<longrightarrow>
            on_message env api (JStr s) = Inr (on_telemetry api (get_prop P ''data''))) \<and>
         (onTelemetry api \<longrightarrow> on_telemetry api (get_prop P ''data'') = [Telemetry (get_prop P ''data'')])"
proof -
  from assms obtain kvs where P: "P = JObj kvs"
    by (cases P) simp_all
  have direct: "on_message env api P = Inr (on_telemetry api (get_prop P ''data''))"
    using assms by (simp add: P on_message_def parse_payload_def nullish_def)
  have enveloped: "on_message env api (JStr s) = Inr (on_telemetry api (get_prop P ''data''))"
    if "JSON_parse env s = Some P"
    using assms that by (simp add: P on_message_def parse_payload_def nullish_def)
  show ?thesis
    using direct enveloped by (simp add: on_telemetry_def)
qed

theorem C2_telemetry_paths_agree_witness:
  \<open>get_prop (JObj [(''type'', JStr ''telemetry''), (''data'', JObj [(''T'', JNum (25::int))])]) ''type''
     = JStr ''telemetry'' \<and>
   on_message
     \<lparr>JSON_parse = (\<lambda>s. if s = ''{"type":"telemetry","data":{"T":25}}'' then
          Some (JObj [(''type'', JStr ''telemetry''), (''data'', JObj [(''T'', JNum (25::int))])]) else None),
      JSON_stringify = (\<lambda>v. None), toString = (\<lambda>v. Inr []), HTTP_URL = ''http://192.168.4.1/cmd''\<rparr>
     (app_api (Some True)) (JStr ''{"type":"telemetry","data":{"T":25}}'')
     = Inr [Telemetry (JObj [(''T'', JNum 25)])] \<and>
   on_telemetry (app_api (Some True)) (JObj [(''T'', JNum (25::int))])
     = [Telemetry (JObj [(''T'', JNum 25)])]\<close>
  using C2_telemetry_paths_agree
    [of \<open>JObj [(''type'', JStr ''telemetry''), (''data'', JObj [(''T'', JNum (25::int))])]\<close>
        \<open>\<lparr>JSON_parse = (\<lambda>s. if s = ''{"type":"telemetry","data":{"T":25}}'' then
          Some (JObj [(''type'', JStr ''telemetry''), (''data'', JObj [(''T'', JNum (25::int))])]) else None),
          JSON_stringify = (\<lambda>v. None), toString = (\<lambda>v. Inr []), HTTP_URL = ''http://192.168.4.1/cmd''\<rparr>\<close>
        \<open>app_api (Some True)\<close> \<open>''{"type":"telemetry","data":{"T":25}}''\<close>]
  by (simp add: obj_get_def app_api_def)

text \<open>
  C3 says that a position that is not a two-element pair is normalized to nothing. For a
  number, a string or a missing position the code does so (\<open>position_not_array_null\<close>).
  For an array of another length it does not: \<^verbatim>\<open>Array.isArray\<close> is the only test, so
  \<^verbatim>\<open>[1]\<close> and \<^verbatim>\<open>[1, 2, 3]\<close> are stored as the position, against the declared type
  \<^verbatim>\<open>[number, number] | null\<close> of the field and the display that reads both elements.
\<close>

theorem C3_short_and_long_arrays_kept:
  "\<not> is_pair (JArr [JNum (1::int)]) \<and>
   normalized_field (JObj [(''pos'', JArr [JNum (1::int)])]) ''pos'' = Some (JArr [JNum 1]) \<and>
   \<not> is_pair (JArr [JNum (1::int), JNum 2, JNum 3]) \<and>
   normalized_field (JObj [(''pos'', JArr [JNum (1::int), JNum 2, JNum 3])]) ''pos''
     = Some (JArr [JNum 1, JNum 2, JNum 3])"
  by (simp add: normalized_field_def normalizeTelemetry_def nullish_def obj_get_def)

text \<open>
  C4 as stated fails: with \<^verbatim>\<open>{us: null, US: 5}\<close> both keys are given, the value of the
  long-form key is \<^verbatim>\<open>null\<close>, and the normalized value is 5.
\<close>

theorem C4_counterexample:
  "map_of [(''us'', JNull), (''US'', JNum (5::int))] ''us'' = Some JNull \<and>
   map_of [(''us'', JNull), (''US'', JNum (5::int))] ''US'' = Some (JNum 5) \<and>
   normalized_field (JObj [(''us'', JNull), (''US'', JNum (5::int))]) ''us'' = Some (JNum 5)"
  by (simp add: normalized_field_def normalizeTelemetry_def nullish_def obj_get_def coalesce_def)

text \<open>
  C4, amended: when the data gives both keys of a field, the normalized field is the value
  of the long-form key unless that value is \<^verbatim>\<open>null\<close> or \<^verbatim>\<open>undefined\<close>, and the value of
  the short-form key if it is.
\<close>

theorem C4_long_form_unless_nullish:
  assumes "(long, short) \<in> set key_pairs"
    and "map_of kvs long = Some v" and "map_of kvs short = Some w"
  shows "normalized_field (JObj kvs) long = Some (if nullish v then w else v)"
proof -
  have "coalesce (obj_get kvs long) (obj_get kvs short) = (if nullish v then w else v)"
    using assms(2,3) by (simp add: obj_get_def coalesce_def)
  moreover have "normalized_field (JObj kvs) long
      = Some (coalesce (obj_get kvs long) (obj_get kvs short))"
    using assms(1) unfolding key_pairs_def
    by (elim disjE | simp add: normalized_field_keys)+
  ultimately show ?thesis
    by simp
qed

theorem C4_long_form_unless_nullish_witness:
  "(''temp'', ''T'') \<in> set key_pairs \<and>
   map_of [(''T'', JNum (30::int)), (''temp'', JNum 25)] ''temp'' = Some (JNum 25) \<and>
   map_of [(''T'', JNum (30::int)), (''temp'', JNum 25)] ''T'' = Some (JNum 30) \<and>
   normalized_field (JObj [(''T'', JNum (30::int)), (''temp'', JNum 25)]) ''temp'' = Some (JNum 25) \<and>
   map_of [(''temp'', JNull), (''T'', JNum (30::int))] ''temp'' = Some JNull \<and>
   map_of [(''temp'', JNull), (''T'', JNum (30::int))] ''T'' = Some (JNum 30) \<and>
   normalized_field (JObj [(''temp'', JNull), (''T'', JNum (30::int))]) ''temp'' = Some (JNum 30)"
  using C4_long_form_unless_nullish
      [of "''temp''" "''T''" "[(''T'', JNum (30::int)), (''temp'', JNum 25)]" "JNum 25" "JNum 30"]
    C4_long_form_unless_nullish
      [of "''temp''" "''T''" "[(''temp'', JNull), (''T'', JNum (30::int))]" JNull "JNum 30"]
  by (simp add: key_pairs_def nullish_def)

subsection \<open>The log\<close>

text \<open>
  C5: starting from the empty log, no sequence of insertions makes the log longer than
  100; and an insertion into a log of 100 entries gives the new entry followed by the
  old entries without their last one, the oldest, in their order, 100 entries again.
\<close>

theorem C5_log_bounded_evicts_oldest:
  "length (addLogs ins []) \<le> 100 \<and>
   (length prev = 100 \<longrightarrow>
      addLog rid now ty msg prev
        = \<lparr>entry_id = rid, timestamp = now, message = msg, entry_type = ty\<rparr> # butlast prev \<and>
      prev = butlast prev @ [last prev] \<and>
      length (addLog rid now ty msg prev) = 100)"
proof -
  have bounded: "length (addLogs ins []) \<le> 100"
    by (rule length_addLogs) simp
  have evict: "addLog rid now ty msg prev
        = \<lparr>entry_id = rid, timestamp = now, message = msg, entry_type = ty\<rparr> # butlast prev"
    if "length prev = 100"
  proof -
    have "take 99 prev = butlast prev"
      using that by (simp add: butlast_conv_take)
    then show ?thesis
      by (simp add: addLog_def)
  qed
  have split: "prev = butlast prev @ [last prev]" if "length prev = 100"
  proof -
    from that have "prev \<noteq> []" by auto
    then show ?thesis by simp
  qed
  show ?thesis
    using bounded evict split by (simp add: length_addLog)
qed


theorem C5_log_bounded_evicts_oldest_witness:
  "length (addLogs [(''b'', ''10:00:01'', rx, ''new'')] []) \<le> 100 \<and>
   length (replicate 100 \<lparr>entry_id = ''a'', timestamp = ''10:00:00'', message = ''old'', entry_type = sys\<rparr>) = 100 \<and>
   addLog ''b'' ''10:00:01'' rx ''new''
     (replicate 100 \<lparr>entry_id = ''a'', timestamp = ''10:00:00'', message = ''old'', entry_type = sys\<rparr>)
     = \<lparr>entry_id = ''b'', timestamp = ''10:00:01'', message = ''new'', entry_type = rx\<rparr>
       # butlast (replicate 100 \<lparr>entry_id = ''a'', timestamp = ''10:00:00'', message = ''old'', entry_type = sys\<rparr>)"
  using C5_log_bounded_evicts_oldest
    [of "[(''b'', ''10:00:01'', rx, ''new'')]"
        "replicate 100 \<lparr>entry_id = ''a'', timestamp = ''10:00:00'', message = ''old'', entry_type = sys\<rparr>"
        "''b''" "''10:00:01''" rx "''new''"]
  by simp

subsection \<open>The client seen through the dashboard's log\<close>

text \<open>
  C6 says that \<^verbatim>\<open>sendCommand("STOP")\<close> on a disconnected channel gives one fallback
  request with body \<^verbatim>\<open>{c:"STOP"}\<close>, one outbound log entry marked as fallback and, after the
  response \<^verbatim>\<open>OK\<close>, one inbound entry with \<^verbatim>\<open>OK\<close>. The request is as claimed. The two
  entries are not: \<^verbatim>\<open>log\<close> drops the \<^verbatim>\<open>TX\<close> and \<^verbatim>\<open>RX\<close> it is given, so the dashboard sees
  lines that start with \<^verbatim>\<open>HTTP\<close> and files both under \<open>sys\<close>.
\<close>

theorem C6_fallback_lines_recorded_as_system:
  "sendCmd env (app_api (Some False)) ''STOP'' (Responds ''OK'')
     = Inr [Log ''HTTP: STOP (Fallback)'',
            Fetch \<lparr>req_url = HTTP_URL env, req_method = ''POST'',
                   req_headers = [(''Content-Type'', ''application/json'')],
                   req_body = JSON_stringify env (JObj [(''c'', JStr ''STOP'')])\<rparr>,
            Log ''HTTP Resp: OK''] \<and>
   shown (app_apply stamp (sendCmd env (app_api (Some False)) ''STOP'' (Responds ''OK'')) app_init)
     = Some [(sys, ''HTTP Resp: OK''), (sys, ''HTTP: STOP (Fallback)'')]"
  by (simp add: sendCmd_def fallback_try_def log_def app_api_def app_apply_def shown_def
      log_view_def app_init_def app_onLog_def addLog_def classify_def strip_tag_def)



text \<open>
  C8 says that a text that fails to parse, such as \<^verbatim>\<open>not json{\<close>, gives exactly one inbound
  log entry with the raw text. The client calls the log callback once with the raw text
  and does nothing else, as claimed; the entry the dashboard makes of it is a system
  entry, not an inbound one.
\<close>

theorem C8_unparsed_text_recorded_as_system:
  "on_message (env\<lparr>JSON_parse := (JSON_parse env)(''not json{'' := None)\<rparr>) (app_api sock)
       (JStr ''not json{'')
     = Inr [Log ''not json{''] \<and>
   shown (app_apply stamp
       (on_message (env\<lparr>JSON_parse := (JSON_parse env)(''not json{'' := None)\<rparr>) (app_api sock)
          (JStr ''not json{''))
       app_init)
     = Some [(sys, ''not json{'')]"
  by (simp add: on_message_def parse_payload_def log_def app_api_def app_apply_def shown_def
      log_view_def app_init_def app_onLog_def addLog_def classify_def strip_tag_def)

text \<open>
  C9 says that \<^verbatim>\<open>{"type":"ack","data":{"ok":true}}\<close> calls the acknowledgement callback
  with the JSON rendering of the data and gives one more inbound log entry. With an
  acknowledgement callback assigned the call is as claimed; the log entry, made from a
  line that starts with \<^verbatim>\<open>ACK\<close>, is a system entry, not an inbound one.
\<close>

theorem C9_ack_line_recorded_as_system:
  "on_message env ((app_api sock)\<lparr>onAck := True\<rparr>)
       (JObj [(''type'', JStr ''ack''), (''data'', JObj [(''ok'', JBool True)])])
     = Inr [Ack (JSON_stringify env (JObj [(''ok'', JBool True)])),
            Log (''ACK: '' @ template (JSON_stringify env (JObj [(''ok'', JBool True)])))] \<and>
   shown (app_apply stamp
       (on_message env ((app_api sock)\<lparr>onAck := True\<rparr>)
          (JObj [(''type'', JStr ''ack''), (''data'', JObj [(''ok'', JBool True)])]))
       app_init)
     = Some [(sys, ''ACK: '' @ template (JSON_stringify env (JObj [(''ok'', JBool True)])))]"
  by (simp add: on_message_def parse_payload_def nullish_def obj_get_def log_def app_api_def
      app_apply_def shown_def log_view_def app_init_def app_onLog_def addLog_def classify_def
      strip_tag_def)

text \<open>
  C10: \<^verbatim>\<open>log\<close> does the same whatever type it is given; the entry the dashboard makes of
  a logged line has the category read off the start of the message (\<^verbatim>\<open>TX\<close>, else \<^verbatim>\<open>RX\<close>,
  else system); so a line that starts with neither is a system entry, whatever type the
  client logged it with.
\<close>

theorem C10_category_from_message_only:
  "log api ty msg = (log api ty' msg :: 'n action list) \<and>
   shown (app_apply stamp (Inr (log (app_api sock) ty msg)) (app_init :: 'n app_state))
     = Some [(classify msg, strip_tag msg)] \<and>
   classify msg = (if startsWith msg ''TX'' then tx else if startsWith msg ''RX'' then rx else sys) \<and>
   (\<not> startsWith msg ''TX'' \<longrightarrow> \<not> startsWith msg ''RX'' \<longrightarrow>
      shown (app_apply stamp (Inr (log (app_api sock) ty msg)) (app_init :: 'n app_state))
        = Some [(sys, strip_tag msg)])"
  by (simp add: log_def app_api_def app_apply_def shown_def log_view_def app_init_def
      app_onLog_def addLog_def classify_def)

theorem C10_category_from_message_only_witness:
  "\<not> startsWith ''ACK: 1'' ''TX'' \<and> \<not> startsWith ''ACK: 1'' ''RX'' \<and>
   log (app_api None) ''RX'' ''ACK: 1'' = (log (app_api None) ''TX'' ''ACK: 1'' :: int action list) \<and>
   shown (app_apply (\<lambda>n. (''id'', ''10:00:00'')) (Inr (log (app_api None) ''RX'' ''ACK: 1''))
       (app_init :: int app_state))
     = Some [(sys, ''ACK: 1'')]"
  using C10_category_from_message_only
    [of "app_api None" "''RX''" "''ACK: 1''" "''TX''" "\<lambda>n. (''id'', ''10:00:00'')" None,
     where ?'n = int]
  by (simp add: strip_tag_def classify_def log_def)

end
